theory Spec2Isabelle
  imports Main
begin

section \<open>Effects: a call log and an outcome\<close>

text \<open>
  Both modules are \<^verbatim>\<open>async\<close> functions that call collaborators living in other modules
  (the session module, the \<^verbatim>\<open>cookie\<close> parser, the browser context, the localisation and
  toast helpers). A run is modelled as the list of collaborator calls it made, in order,
  together with its outcome: \<open>Inl x\<close> when the run ended by throwing \<open>x\<close> (a rejected
  promise), \<open>Inr a\<close> when it returned \<open>a\<close>.
\<close>

type_synonym ('c, 'x, 'a) run = "'c list \<times> ('x + 'a)"

definition done_run :: "'a \<Rightarrow> ('c, 'x, 'a) run" where
  "done_run a = ([], Inr a)"

definition throw_run :: "'x \<Rightarrow> ('c, 'x, 'a) run" where
  "throw_run x = ([], Inl x)"

text \<open>\<open>call c r\<close>: the collaborator call \<open>c\<close> is made and awaited; \<open>r\<close> is what it gave.\<close>

definition call :: "'c \<Rightarrow> 'x + 'a \<Rightarrow> ('c, 'x, 'a) run" where
  "call c r = ([c], r)"

text \<open>Sequencing: a throw ends the run, and nothing after it is called.\<close>

definition then_run :: "('c, 'x, 'a) run \<Rightarrow> ('a \<Rightarrow> ('c, 'x, 'b) run) \<Rightarrow> ('c, 'x, 'b) run" where
  "then_run m f =
     (case m of
        (cs, Inl x) \<Rightarrow> (cs, Inl x)
      | (cs, Inr a) \<Rightarrow> (case f a of (cs', r) \<Rightarrow> (cs @ cs', r)))"

definition calls :: "('c, 'x, 'a) run \<Rightarrow> 'c list" where
  "calls m = fst m"

definition outcome :: "('c, 'x, 'a) run \<Rightarrow> 'x + 'a" where
  "outcome m = snd m"

section \<open>JavaScript values\<close>

text \<open>
  A \<^verbatim>\<open>string | null\<close> or \<^verbatim>\<open>string | undefined\<close> value is a \<open>string option\<close>. Such a
  value is falsy when it is absent or the empty string; \<^verbatim>\<open>v || d\<close> is then \<^verbatim>\<open>d\<close>.
\<close>

definition or_default :: "string option \<Rightarrow> string \<Rightarrow> string" where
  "or_default v d = (case v of None \<Rightarrow> d | Some s \<Rightarrow> if s = [] then d else s)"

datatype error = Error string

text \<open>A request as far as the code builds one: \<^verbatim>\<open>new Request(url)\<close> has no headers.\<close>

record request =
  url :: string
  request_headers :: "(string \<times> string) list"

definition new_Request :: "string \<Rightarrow> request" where
  "new_Request u = \<lparr>url = u, request_headers = []\<rparr>"

text \<open>A response as far as the code reads one: \<^verbatim>\<open>response.headers.get(name)\<close>.\<close>

record response =
  headers_get :: "string \<Rightarrow> string option"

section \<open>The test helper \<^verbatim>\<open>loginByCookie\<close>\<close>

text \<open>The argument object of \<^verbatim>\<open>createUserSession\<close>.\<close>

record session_args =
  redirectTo :: string
  remember :: bool
  request :: request
  userId :: string

text \<open>
  The cookie object handed to \<^verbatim>\<open>addCookies\<close>. Its \<^verbatim>\<open>value\<close> is the result of an
  object lookup, so it can be \<^verbatim>\<open>undefined\<close>.
\<close>

record cookie =
  name :: string
  cookie_value :: "string option"
  domain :: string
  path :: string

datatype login_call = CreateUserSession session_args | AddCookies "cookie list"

text \<open>
  What the helper imports. \<open>USER_AUTHENTICATION_SESSION_NAME\<close> and \<open>createUserSession\<close>
  come from the session module, \<open>parse\<close> from the \<^verbatim>\<open>cookie\<close> package (its result is an
  object, read here as a map from names to values), \<open>ethereumAddress\<close> is what
  \<^verbatim>\<open>faker.finance.ethereumAddress()\<close> returns when it is called.
\<close>

record login_deps =
  USER_AUTHENTICATION_SESSION_NAME :: string
  createUserSession :: "session_args \<Rightarrow> error + response"
  parse :: "string \<Rightarrow> string \<Rightarrow> string option"
  ethereumAddress :: string

text \<open>The test's page, as far as it is used: \<^verbatim>\<open>page.context().addCookies(cookies)\<close>.\<close>

record page =
  addCookies :: "cookie list \<Rightarrow> error + unit"

definition generateRandomDid :: "login_deps \<Rightarrow> string" where
  "generateRandomDid d = ''did:ethr:'' @ ethereumAddress d"

text \<open>
  \<open>loginByCookie d id_arg page\<close>: \<open>id_arg = None\<close> is the call without \<^verbatim>\<open>id\<close>, where the
  default \<^verbatim>\<open>generateRandomDid()\<close> is evaluated. \<^verbatim>\<open>!cookieValue\<close> holds for \<^verbatim>\<open>null\<close>
  and for the empty string.
\<close>

definition loginByCookie :: "login_deps \<Rightarrow> string option \<Rightarrow> page \<Rightarrow> (login_call, error, unit) run" where
  "loginByCookie d id_arg page =
     (let id' = (case id_arg of None \<Rightarrow> generateRandomDid d | Some i \<Rightarrow> i);
          args = \<lparr>redirectTo = ''/'', remember = False,
                  request = new_Request ''http://localhost:3000/'', userId = id'\<rparr>
      in then_run (call (CreateUserSession args) (createUserSession d args)) (\<lambda>response.
           case headers_get response ''Set-Cookie'' of
             None \<Rightarrow> throw_run (Error ''Cookie missing from createUserSession response'')
           | Some cookieValue \<Rightarrow>
               if cookieValue = []
               then throw_run (Error ''Cookie missing from createUserSession response'')
               else
                 let parsedCookie = parse d cookieValue;
                     token = parsedCookie (USER_AUTHENTICATION_SESSION_NAME d);
                     cookies = [\<lparr>name = USER_AUTHENTICATION_SESSION_NAME d,
                                 cookie_value = token,
                                 domain = ''localhost'', path = ''/''\<rparr>]
                 in call (AddCookies cookies) (addCookies page cookies)))"

section \<open>The root loader\<close>

type_synonym headers = "(string \<times> string) list"

record environment_variables =
  ENVIRONMENT :: "string option"
  SENTRY_DSN :: "string option"

record 'toast loader_data =
  ENV :: environment_variables
  loader_locale :: string
  title :: string
  toast :: "'toast option"

text \<open>\<^verbatim>\<open>json(data, { headers })\<close>: the response the loader returns.\<close>

record 'toast json_response =
  json_data :: "'toast loader_data"
  json_headers :: headers

text \<open>What \<^verbatim>\<open>getToast(request)\<close> resolves to: \<^verbatim>\<open>{ toast, headers }\<close>.\<close>

record 'toast toast_result =
  got_toast :: "'toast option"
  got_headers :: headers

text \<open>The collaborator calls that are handed the inbound request.\<close>

datatype root_call =
  EnforceHttps request | GetLocale request | GetFixedT request | GetToast request

text \<open>
  What the loader reads and imports: \<^verbatim>\<open>process.env\<close>, \<^verbatim>\<open>enforceHttps\<close> (module
  \<^verbatim>\<open>./https\<close>), \<^verbatim>\<open>i18next.getLocale\<close>, \<^verbatim>\<open>i18next.getFixedT\<close>, \<^verbatim>\<open>getToast\<close> and
  \<^verbatim>\<open>combineHeaders\<close>. Each awaited collaborator either throws a value of type \<open>'x\<close> or
  returns.
\<close>

record ('x, 'toast) root_deps =
  process_env :: "string \<Rightarrow> string option"
  enforceHttps :: "request \<Rightarrow> 'x + unit"
  getLocale :: "request \<Rightarrow> 'x + string"
  getFixedT :: "request \<Rightarrow> 'x + (string \<Rightarrow> string)"
  getToast :: "request \<Rightarrow> 'x + 'toast toast_result"
  combineHeaders :: "headers list \<Rightarrow> headers"

definition rootLoader ::
  "('x, 'toast) root_deps \<Rightarrow> request \<Rightarrow> (root_call, 'x, 'toast json_response) run" where
  "rootLoader d req =
     (let node_env = process_env d ''NODE_ENV'';
          sentry_dsn = process_env d ''SENTRY_DSN''
      in then_run
           (if or_default node_env ''production'' = ''production''
            then call (EnforceHttps req) (enforceHttps d req)
            else done_run ())
           (\<lambda>_. then_run (call (GetLocale req) (getLocale d req)) (\<lambda>loc.
                 then_run (call (GetFixedT req) (getFixedT d req)) (\<lambda>t.
                 let ttl = t ''app-name'' in
                 then_run (call (GetToast req) (getToast d req)) (\<lambda>toasted.
                 done_run
                   \<lparr>json_data =
                      \<lparr>ENV = \<lparr>ENVIRONMENT = node_env, SENTRY_DSN = sentry_dsn\<rparr>,
                       loader_locale = loc, title = ttl, toast = got_toast toasted\<rparr>,
                    json_headers = combineHeaders d [got_headers toasted]\<rparr>)))))"

text \<open>
  The exported \<^verbatim>\<open>loader\<close> hands its arguments and \<^verbatim>\<open>rootLoader\<close> to \<^verbatim>\<open>rootAuthLoader\<close> of
  \<^verbatim>\<open>@clerk/remix\<close>. What that function does with the request before it calls the handler is
  its own; in the log, \<open>AuthenticateRequest\<close> is its processing of the request and
  \<open>Handler c\<close> a call \<open>c\<close> made by the handler.
\<close>

datatype loader_call = AuthenticateRequest request | Handler root_call

type_synonym ('x, 'toast) handler = "request \<Rightarrow> (root_call, 'x, 'toast json_response) run"

definition loader ::
  "(request \<Rightarrow> ('x, 'toast) handler \<Rightarrow> (loader_call, 'x, 'r) run) \<Rightarrow>
   ('x, 'toast) root_deps \<Rightarrow> request \<Rightarrow> (loader_call, 'x, 'r) run" where
  "loader rootAuthLoader d arguments = rootAuthLoader arguments (rootLoader d)"

section \<open>Session resolution\<close>

text \<open>
  Modelled from the spec: \<open>resolveSession\<close> of the Session Manager (spec section 4.2). The
  session module \<^verbatim>\<open>user-authentication-session.server\<close> is imported by the test helper but
  is not among the sources. The spec's words: the raw cookie value for the fixed
  session-cookie name is extracted from the inbound request through the Transport Adapter;
  if it is absent the result is \<open>None\<close>; if it is present it is decoded by the Codec; on
  \<open>Malformed\<close>, \<open>TamperedOrInvalidSignature\<close> or \<open>Expired\<close> the request is treated as
  unauthenticated and the stale cookie is signalled for clearing, with no fatal error. The
  Transport Adapter's read and the Codec's \<open>decode\<close> are parameters: the spec fixes neither
  the header parsing nor the signing mechanism.
\<close>

datatype failure = Malformed | TamperedOrInvalidSignature | Expired

record session_record =
  record_userId :: string
  createdAt :: nat
  expiresAt :: nat
  record_remember :: bool

record session_deps =
  SESSION_COOKIE_NAME :: string
  readCookie :: "request \<Rightarrow> string \<Rightarrow> string option"
  decode :: "string \<Rightarrow> failure + session_record"

record resolution =
  identity :: "string option"
  clearCookie :: bool

definition resolveSession :: "session_deps \<Rightarrow> request \<Rightarrow> error + resolution" where
  "resolveSession s requestContext =
     (case readCookie s requestContext (SESSION_COOKIE_NAME s) of
        None \<Rightarrow> Inr \<lparr>identity = None, clearCookie = False\<rparr>
      | Some raw \<Rightarrow>
          (case decode s raw of
             Inl _ \<Rightarrow> Inr \<lparr>identity = None, clearCookie = True\<rparr>
           | Inr r \<Rightarrow> Inr \<lparr>identity = Some (record_userId r), clearCookie = False\<rparr>))"

section \<open>The session module\<close>

text \<open>
  Modelled from the spec: the session module \<^verbatim>\<open>user-authentication-session.server\<close>, from
  which the test helper imports \<^verbatim>\<open>createUserSession\<close> and
  \<^verbatim>\<open>USER_AUTHENTICATION_SESSION_NAME\<close> and which is not among the sources. The spec's
  words (sections 3, 4.2, 6 and 9): the cookie name is a single module-level constant
  handed to every component; \<open>createSession\<close> computes \<open>expiresAt\<close> from one of two
  durations selected by \<open>remember\<close>, obtains the token from the Codec and produces the
  instruction for the cookie to set, with that name, the token as value, path \<^verbatim>\<open>/\<close>,
  \<open>HttpOnly\<close> always, \<open>Secure\<close> outside local development and \<open>Max-Age\<close> from the duration;
  the Transport Adapter writes the instruction as the \<^verbatim>\<open>Set-Cookie\<close> header. The Codec,
  the Transport Adapter, the two durations, the \<open>SameSite\<close> policy and the clock are
  parameters: the spec fixes none of them.
\<close>

record transport_instruction =
  instruction_name :: string
  instruction_value :: string
  instruction_path :: string
  httpOnly :: bool
  secure :: bool
  sameSite :: string
  maxAge :: nat

record session_module =
  SESSION_NAME :: string
  encode :: "session_record \<Rightarrow> string"
  module_decode :: "string \<Rightarrow> failure + session_record"
  module_readCookie :: "request \<Rightarrow> string \<Rightarrow> string option"
  writeSetCookie :: "transport_instruction \<Rightarrow> string"
  defaultDuration :: nat
  rememberDuration :: nat
  sameSitePolicy :: string
  localDevelopment :: bool
  now :: nat

definition createSession ::
  "session_module \<Rightarrow> string \<Rightarrow> bool \<Rightarrow> request \<Rightarrow> session_record \<times> transport_instruction" where
  "createSession m uid rem requestContext =
     (let duration = (if rem then rememberDuration m else defaultDuration m);
          r = \<lparr>record_userId = uid, createdAt = now m, expiresAt = now m + duration,
               record_remember = rem\<rparr>
      in (r, \<lparr>instruction_name = SESSION_NAME m, instruction_value = encode m r,
              instruction_path = ''/'', httpOnly = True, secure = (\<not> localDevelopment m),
              sameSite = sameSitePolicy m, maxAge = duration\<rparr>))"

text \<open>The Session Manager's resolution, configured with the module's constant.\<close>

definition session_manager_deps :: "session_module \<Rightarrow> session_deps" where
  "session_manager_deps m =
     \<lparr>SESSION_COOKIE_NAME = SESSION_NAME m, readCookie = module_readCookie m,
      decode = module_decode m\<rparr>"

text \<open>
  The module's \<^verbatim>\<open>createUserSession\<close>, as far as the helper reads its response: the
  \<^verbatim>\<open>Set-Cookie\<close> header written for the instruction of \<open>createSession\<close>.
\<close>

definition module_createUserSession :: "session_module \<Rightarrow> session_args \<Rightarrow> error + response" where
  "module_createUserSession m a =
     Inr \<lparr>headers_get =
            (\<lambda>h. if h = ''Set-Cookie''
                 then Some (writeSetCookie m
                              (snd (createSession m (userId a) (remember a) (request a))))
                 else None)\<rparr>"

text \<open>
  The helper's import statement: both names come from the one module. The cookie parser
  and the \<^verbatim>\<open>faker\<close> draw are the helper's other two imports.
\<close>

definition helper_imports ::
  "session_module \<Rightarrow> (string \<Rightarrow> string \<Rightarrow> string option) \<Rightarrow> string \<Rightarrow> login_deps" where
  "helper_imports m p a =
     \<lparr>USER_AUTHENTICATION_SESSION_NAME = SESSION_NAME m,
      createUserSession = module_createUserSession m,
      parse = p, ethereumAddress = a\<rparr>"

section \<open>Concrete collaborators for the examples\<close>

text \<open>A cookie parser that knows two header values, and one that knows none.\<close>

definition demo_parse :: "string \<Rightarrow> string \<Rightarrow> string option" where
  "demo_parse cv =
     (if cv = ''__session=tok123; Path=/; HttpOnly''
      then [''__session'' \<mapsto> ''tok123'', ''Path'' \<mapsto> ''/'', ''HttpOnly'' \<mapsto> ''true'']
      else if cv = ''other=1; Path=/''
      then [''other'' \<mapsto> ''1'', ''Path'' \<mapsto> ''/'']
      else Map.empty)"

text \<open>A response whose only header is \<^verbatim>\<open>Set-Cookie\<close> with the given value, if any.\<close>

definition demo_response :: "string option \<Rightarrow> response" where
  "demo_response set_cookie =
     \<lparr>headers_get = (\<lambda>h. if h = ''Set-Cookie'' then set_cookie else None)\<rparr>"

text \<open>A session module that answers every call with that response.\<close>

definition demo_login_deps :: "string option \<Rightarrow> login_deps" where
  "demo_login_deps set_cookie =
     \<lparr>USER_AUTHENTICATION_SESSION_NAME = ''__session'',
      createUserSession = (\<lambda>_. Inr (demo_response set_cookie)),
      parse = demo_parse,
      ethereumAddress = ''0x5aeda56215b167893e80b4fe645ba6d5bab767de''\<rparr>"

definition demo_page :: page where
  "demo_page = \<lparr>addCookies = (\<lambda>_. Inr ())\<rparr>"

text \<open>A deployment with the given \<^verbatim>\<open>NODE_ENV\<close> whose \<^verbatim>\<open>enforceHttps\<close> gives \<open>https\<close>.\<close>

definition demo_root_deps :: "string option \<Rightarrow> string + unit \<Rightarrow> (string, string) root_deps" where
  "demo_root_deps node_env https =
     \<lparr>process_env = (\<lambda>v. if v = ''NODE_ENV'' then node_env else None),
      enforceHttps = (\<lambda>_. https),
      getLocale = (\<lambda>_. Inr ''en''),
      getFixedT = (\<lambda>_. Inr (\<lambda>k. if k = ''app-name'' then ''French House Stack'' else k)),
      getToast = (\<lambda>_. Inr \<lparr>got_toast = None, got_headers = []\<rparr>),
      combineHeaders = concat\<rparr>"

definition demo_request :: request where
  "demo_request = \<lparr>url = ''http://example.com/'', request_headers = []\<rparr>"

definition demo_session_deps :: session_deps where
  "demo_session_deps =
     \<lparr>SESSION_COOKIE_NAME = ''__session'',
      readCookie =
        (\<lambda>r n. case map_of (request_headers r) ''Cookie'' of
                  None \<Rightarrow> None
                | Some h \<Rightarrow>
                    if take (length n + 1) h = n @ ''=''
                    then Some (drop (length n + 1) h) else None),
      decode = (\<lambda>_. Inl Malformed)\<rparr>"

text \<open>
  A stand-in for \<^verbatim>\<open>enforceHttps\<close>: a request whose URL is plaintext is answered by a thrown
  redirect to the same URL under \<^verbatim>\<open>https\<close>.
\<close>

definition demo_enforceHttps :: "request \<Rightarrow> string + unit" where
  "demo_enforceHttps r =
     (if take 7 (url r) = ''http://'' then Inl (''https://'' @ drop 7 (url r)) else Inr ())"

definition demo_production_deps :: "(string, string) root_deps" where
  "demo_production_deps =
     (demo_root_deps (Some ''production'') (Inr ()))\<lparr>enforceHttps := demo_enforceHttps\<rparr>"

text \<open>
  A stand-in for \<^verbatim>\<open>rootAuthLoader\<close>: it authenticates the request, then calls the handler
  and returns what the handler returns.
\<close>

definition demo_rootAuthLoader ::
  "request \<Rightarrow> (string, string) handler \<Rightarrow> (loader_call, string, string json_response) run" where
  "demo_rootAuthLoader arguments handler =
     (case handler arguments of (cs, r) \<Rightarrow> (AuthenticateRequest arguments # map Handler cs, r))"

text \<open>
  A session module whose token is the user id behind a prefix, with a header writer for
  name, value and two attributes, and a parser that reads the first pair of a header.
\<close>

definition demo_session_module :: session_module where
  "demo_session_module =
     \<lparr>SESSION_NAME = ''__session'',
      encode = (\<lambda>r. ''tok-'' @ record_userId r),
      module_decode = (\<lambda>_. Inl Malformed),
      module_readCookie = (\<lambda>_ _. None),
      writeSetCookie =
        (\<lambda>i. instruction_name i @ ''='' @ instruction_value i @ ''; Path=/; HttpOnly''),
      defaultDuration = 86400,
      rememberDuration = 2592000,
      sameSitePolicy = ''Lax'',
      localDevelopment = True,
      now = 0\<rparr>"

definition demo_parse_first :: "string \<Rightarrow> string \<Rightarrow> string option" where
  "demo_parse_first cv n =
     (if takeWhile (\<lambda>c. c \<noteq> CHR ''='') cv = n
      then Some (takeWhile (\<lambda>c. c \<noteq> CHR '';'') (drop (length n + 1) cv))
      else None)"

section \<open>Facts about runs\<close>

lemma then_run_call_Inr:
  "then_run (call c (Inr a)) f = (c # fst (f a), snd (f a))"
  by (simp add: then_run_def call_def split: prod.splits)

lemma then_run_call_Inl:
  "then_run (call c (Inl x)) f = ([c], Inl x)"
  by (simp add: then_run_def call_def)

lemma then_run_done:
  "then_run (done_run a) f = f a"
  by (simp add: then_run_def done_run_def split: prod.splits)

lemma fst_call [simp]: "fst (call c r) = [c]"
  by (simp add: call_def)

lemma snd_call [simp]: "snd (call c r) = r"
  by (simp add: call_def)

lemma calls_then_run_call:
  "calls (then_run (call c r) f) = c # (case r of Inl x \<Rightarrow> [] | Inr a \<Rightarrow> calls (f a))"
  by (cases r) (simp_all add: then_run_call_Inl then_run_call_Inr calls_def)

section \<open>Properties of \<^verbatim>\<open>loginByCookie\<close>\<close>

text \<open>
  C2. Whenever the response of \<^verbatim>\<open>createUserSession\<close> has no \<^verbatim>\<open>Set-Cookie\<close> header,
  \<^verbatim>\<open>loginByCookie\<close> ends by throwing the error
  \<^verbatim>\<open>Cookie missing from createUserSession response\<close>, and the browser context is never
  touched.
\<close>

theorem loginByCookie_throws_without_set_cookie:
  assumes "createUserSession d
             \<lparr>redirectTo = ''/'', remember = False,
              request = new_Request ''http://localhost:3000/'',
              userId = (case id_arg of None \<Rightarrow> generateRandomDid d | Some i \<Rightarrow> i)\<rparr> = Inr resp"
    and "headers_get resp ''Set-Cookie'' = None"
  shows "outcome (loginByCookie d id_arg page) =
           Inl (Error ''Cookie missing from createUserSession response'')
         \<and> (\<forall>cs. AddCookies cs \<notin> set (calls (loginByCookie d id_arg page)))"
  using assms
  by (simp add: loginByCookie_def Let_def then_run_call_Inr throw_run_def
      outcome_def calls_def)

theorem loginByCookie_throws_without_set_cookie_witness:
  "outcome (loginByCookie (demo_login_deps None) (Some ''did:ethr:0xabc'') demo_page) =
     Inl (Error ''Cookie missing from createUserSession response'')
   \<and> (\<forall>cs. AddCookies cs \<notin>
         set (calls (loginByCookie (demo_login_deps None) (Some ''did:ethr:0xabc'') demo_page)))"
proof -
  let ?resp = "demo_response None"
  have h1: "createUserSession (demo_login_deps None)
             \<lparr>redirectTo = ''/'', remember = False,
              request = new_Request ''http://localhost:3000/'',
              userId = (case Some ''did:ethr:0xabc'' of
                          None \<Rightarrow> generateRandomDid (demo_login_deps None) | Some i \<Rightarrow> i)\<rparr>
            = Inr ?resp"
    by (simp add: demo_login_deps_def)
  have h2: "headers_get ?resp ''Set-Cookie'' = None"
    by (simp add: demo_response_def)
  show ?thesis
    using loginByCookie_throws_without_set_cookie [OF h1 h2] by simp
qed

lemma calls_throw_run: "calls (throw_run x) = []"
  by (simp add: calls_def throw_run_def)

lemma calls_call: "calls (call c r) = [c]"
  by (simp add: calls_def)

text \<open>
  The whole call log of the helper: the \<^verbatim>\<open>createUserSession\<close> call, followed by one
  \<^verbatim>\<open>addCookies\<close> call exactly when the response has a non-empty \<^verbatim>\<open>Set-Cookie\<close> header.
\<close>

lemma loginByCookie_calls:
  "calls (loginByCookie d id_arg page) =
     (let args = \<lparr>redirectTo = ''/'', remember = False,
                  request = new_Request ''http://localhost:3000/'',
                  userId = (case id_arg of None \<Rightarrow> generateRandomDid d | Some i \<Rightarrow> i)\<rparr>
      in CreateUserSession args #
           (case createUserSession d args of
              Inl e \<Rightarrow> []
            | Inr resp \<Rightarrow>
                (case headers_get resp ''Set-Cookie'' of
                   None \<Rightarrow> []
                 | Some cv \<Rightarrow>
                     if cv = [] then []
                     else [AddCookies
                             [\<lparr>name = USER_AUTHENTICATION_SESSION_NAME d,
                               cookie_value = parse d cv (USER_AUTHENTICATION_SESSION_NAME d),
                               domain = ''localhost'', path = ''/''\<rparr>]])))"
  by (simp add: loginByCookie_def Let_def calls_then_run_call calls_throw_run calls_call
      split: sum.splits option.splits)

text \<open>
  C1. The session cookie name is the one constant of the session module. Creation writes
  its instruction under it, resolution is configured with it and reads the request's
  cookie under it, and the helper imports it: in every run of the helper against the
  module, the \<^verbatim>\<open>Set-Cookie\<close> header it reads was written for an instruction of that name,
  the entry it looks up and the cookie it installs are under that same string.
\<close>

theorem session_cookie_name_is_one_constant:
  "instruction_name (snd (createSession m uid rem requestContext)) = SESSION_NAME m
   \<and> SESSION_COOKIE_NAME (session_manager_deps m) = SESSION_NAME m
   \<and> USER_AUTHENTICATION_SESSION_NAME (helper_imports m p a) = SESSION_NAME m
   \<and> resolveSession (session_manager_deps m) requestContext =
       (case module_readCookie m requestContext (SESSION_NAME m) of
          None \<Rightarrow> Inr \<lparr>identity = None, clearCookie = False\<rparr>
        | Some raw \<Rightarrow>
            (case module_decode m raw of
               Inl f \<Rightarrow> Inr \<lparr>identity = None, clearCookie = True\<rparr>
             | Inr r \<Rightarrow> Inr \<lparr>identity = Some (record_userId r), clearCookie = False\<rparr>))
   \<and> calls (loginByCookie (helper_imports m p a) id_arg page) =
       (let args = \<lparr>redirectTo = ''/'', remember = False,
                    request = new_Request ''http://localhost:3000/'',
                    userId = (case id_arg of None \<Rightarrow> ''did:ethr:'' @ a | Some i \<Rightarrow> i)\<rparr>;
            instruction = snd (createSession m (userId args) False (request args));
            header = writeSetCookie m instruction
        in CreateUserSession args #
             (if header = [] then []
              else [AddCookies
                      [\<lparr>name = instruction_name instruction,
                        cookie_value = p header (SESSION_COOKIE_NAME (session_manager_deps m)),
                        domain = ''localhost'', path = ''/''\<rparr>]]))"
proof -
  have creation: "instruction_name (snd (createSession m u b c)) = SESSION_NAME m" for u b c
    by (simp add: createSession_def Let_def)
  have resolution: "SESSION_COOKIE_NAME (session_manager_deps m) = SESSION_NAME m"
    by (simp add: session_manager_deps_def)
  have injection: "USER_AUTHENTICATION_SESSION_NAME (helper_imports m p a) = SESSION_NAME m"
    by (simp add: helper_imports_def)
  have reads: "resolveSession (session_manager_deps m) requestContext =
       (case module_readCookie m requestContext (SESSION_NAME m) of
          None \<Rightarrow> Inr \<lparr>identity = None, clearCookie = False\<rparr>
        | Some raw \<Rightarrow>
            (case module_decode m raw of
               Inl f \<Rightarrow> Inr \<lparr>identity = None, clearCookie = True\<rparr>
             | Inr r \<Rightarrow> Inr \<lparr>identity = Some (record_userId r), clearCookie = False\<rparr>))"
    by (simp add: resolveSession_def session_manager_deps_def split: option.splits)
  have run: "calls (loginByCookie (helper_imports m p a) id_arg page) =
       (let args = \<lparr>redirectTo = ''/'', remember = False,
                    request = new_Request ''http://localhost:3000/'',
                    userId = (case id_arg of None \<Rightarrow> ''did:ethr:'' @ a | Some i \<Rightarrow> i)\<rparr>;
            instruction = snd (createSession m (userId args) False (request args));
            header = writeSetCookie m instruction
        in CreateUserSession args #
             (if header = [] then []
              else [AddCookies
                      [\<lparr>name = instruction_name instruction,
                        cookie_value = p header (SESSION_COOKIE_NAME (session_manager_deps m)),
                        domain = ''localhost'', path = ''/''\<rparr>]]))"
    by (cases id_arg)
      (simp_all add: loginByCookie_calls Let_def creation resolution helper_imports_def
        module_createUserSession_def generateRandomDid_def)
  from creation resolution injection reads run show ?thesis
    by blast
qed

theorem session_cookie_name_is_one_constant_witness:
  "instruction_name
     (snd (createSession demo_session_module ''did:ethr:0xabc'' True demo_request))
     = ''__session''
   \<and> SESSION_COOKIE_NAME (session_manager_deps demo_session_module) = ''__session''
   \<and> USER_AUTHENTICATION_SESSION_NAME
        (helper_imports demo_session_module demo_parse_first ''0x5aed'') = ''__session''
   \<and> calls (loginByCookie (helper_imports demo_session_module demo_parse_first ''0x5aed'')
              (Some ''did:ethr:0xabc'') demo_page) =
       [CreateUserSession
          \<lparr>redirectTo = ''/'', remember = False,
           request = new_Request ''http://localhost:3000/'', userId = ''did:ethr:0xabc''\<rparr>,
        AddCookies
          [\<lparr>name = ''__session'', cookie_value = Some ''tok-did:ethr:0xabc'',
            domain = ''localhost'', path = ''/''\<rparr>]]"
  using session_cookie_name_is_one_constant
    [of demo_session_module "''did:ethr:0xabc''" True demo_request demo_parse_first "''0x5aed''"
        "Some ''did:ethr:0xabc''" demo_page]
  by (simp add: Let_def demo_session_module_def demo_parse_first_def createSession_def
      session_manager_deps_def)

text \<open>
  C4. Every invocation begins with exactly one call of \<^verbatim>\<open>createUserSession\<close>, with
  \<^verbatim>\<open>remember: false\<close>, \<^verbatim>\<open>redirectTo: '/'\<close> and the request
  \<^verbatim>\<open>new Request('http://localhost:3000/')\<close> built on the spot (the helper is given no
  inbound request). The user id is the caller's \<^verbatim>\<open>id\<close> when there is one, and
  \<^verbatim>\<open>'did:ethr:'\<close> followed by a newly drawn \<^verbatim>\<open>faker\<close> address when there is none.
\<close>

theorem loginByCookie_createUserSession_arguments:
  "\<exists>later.
     calls (loginByCookie d id_arg page) =
       CreateUserSession
         \<lparr>redirectTo = ''/'', remember = False,
          request = \<lparr>url = ''http://localhost:3000/'', request_headers = []\<rparr>,
          userId = (case id_arg of
                      None \<Rightarrow> ''did:ethr:'' @ ethereumAddress d
                    | Some i \<Rightarrow> i)\<rparr> # later
     \<and> (\<forall>a. CreateUserSession a \<notin> set later)"
proof -
  let ?args = "\<lparr>redirectTo = ''/'', remember = False,
                request = new_Request ''http://localhost:3000/'',
                userId = (case id_arg of None \<Rightarrow> generateRandomDid d | Some i \<Rightarrow> i)\<rparr>"
  have args: "?args =
      \<lparr>redirectTo = ''/'', remember = False,
       request = \<lparr>url = ''http://localhost:3000/'', request_headers = []\<rparr>,
       userId = (case id_arg of None \<Rightarrow> ''did:ethr:'' @ ethereumAddress d | Some i \<Rightarrow> i)\<rparr>"
    by (simp add: new_Request_def generateRandomDid_def split: option.splits)
  have "\<exists>later. calls (loginByCookie d id_arg page) = CreateUserSession ?args # later
          \<and> (\<forall>a. CreateUserSession a \<notin> set later)"
    by (cases "createUserSession d ?args")
      (auto simp: loginByCookie_def Let_def then_run_call_Inl then_run_call_Inr
        throw_run_def calls_def split: option.splits)
  then show ?thesis
    by (simp only: args)
qed

theorem loginByCookie_createUserSession_arguments_witness:
  "\<exists>later.
     calls (loginByCookie (demo_login_deps None) None demo_page) =
       CreateUserSession
         \<lparr>redirectTo = ''/'', remember = False,
          request = \<lparr>url = ''http://localhost:3000/'', request_headers = []\<rparr>,
          userId = ''did:ethr:0x5aeda56215b167893e80b4fe645ba6d5bab767de''\<rparr> # later
     \<and> (\<forall>a. CreateUserSession a \<notin> set later)"
  using loginByCookie_createUserSession_arguments [of "demo_login_deps None" None demo_page]
  by (simp add: demo_login_deps_def)

text \<open>
  C5. In every run that returns normally, the helper made two calls and no other: the
  in-process call of \<^verbatim>\<open>createUserSession\<close>, and one \<^verbatim>\<open>addCookies\<close> with the single
  cookie whose name is the session cookie constant, whose value is what the parsed
  \<^verbatim>\<open>Set-Cookie\<close> header holds under that constant, whose domain is \<^verbatim>\<open>localhost\<close> and whose
  path is \<^verbatim>\<open>/\<close>.
\<close>

theorem loginByCookie_installs_exactly_the_session_cookie:
  assumes "outcome (loginByCookie d id_arg page) = Inr u"
  shows "\<exists>args resp cv.
           createUserSession d args = Inr resp
           \<and> headers_get resp ''Set-Cookie'' = Some cv
           \<and> calls (loginByCookie d id_arg page) =
               [CreateUserSession args,
                AddCookies
                  [\<lparr>name = USER_AUTHENTICATION_SESSION_NAME d,
                    cookie_value = parse d cv (USER_AUTHENTICATION_SESSION_NAME d),
                    domain = ''localhost'', path = ''/''\<rparr>]]"
proof -
  let ?args = "\<lparr>redirectTo = ''/'', remember = False,
                request = new_Request ''http://localhost:3000/'',
                userId = (case id_arg of None \<Rightarrow> generateRandomDid d | Some i \<Rightarrow> i)\<rparr>"
  show ?thesis
  proof (cases "createUserSession d ?args")
    case (Inl e)
    with assms show ?thesis
      by (simp add: loginByCookie_def Let_def then_run_call_Inl outcome_def)
  next
    case (Inr resp)
    show ?thesis
    proof (cases "headers_get resp ''Set-Cookie''")
      case None
      with Inr assms show ?thesis
        by (simp add: loginByCookie_def Let_def then_run_call_Inr throw_run_def outcome_def)
    next
      case (Some cv)
      show ?thesis
      proof (cases "cv = []")
        case True
        with Some Inr assms show ?thesis
          by (simp add: loginByCookie_def Let_def then_run_call_Inr throw_run_def outcome_def)
      next
        case False
        with Some Inr
        have "calls (loginByCookie d id_arg page) =
                [CreateUserSession ?args,
                 AddCookies
                   [\<lparr>name = USER_AUTHENTICATION_SESSION_NAME d,
                     cookie_value = parse d cv (USER_AUTHENTICATION_SESSION_NAME d),
                     domain = ''localhost'', path = ''/''\<rparr>]]"
          by (simp add: loginByCookie_def Let_def then_run_call_Inr calls_def)
        with Inr Some show ?thesis
          by blast
      qed
    qed
  qed
qed

theorem loginByCookie_installs_exactly_the_session_cookie_witness:
  "\<exists>args resp cv.
     createUserSession (demo_login_deps (Some ''__session=tok123; Path=/; HttpOnly'')) args
       = Inr resp
     \<and> headers_get resp ''Set-Cookie'' = Some cv
     \<and> calls (loginByCookie (demo_login_deps (Some ''__session=tok123; Path=/; HttpOnly''))
                (Some ''did:ethr:0xabc'') demo_page) =
         [CreateUserSession args,
          AddCookies
            [\<lparr>name = ''__session'',
              cookie_value = demo_parse cv ''__session'',
              domain = ''localhost'', path = ''/''\<rparr>]]"
proof -
  let ?d = "demo_login_deps (Some ''__session=tok123; Path=/; HttpOnly'')"
  have h: "outcome (loginByCookie ?d (Some ''did:ethr:0xabc'') demo_page) = Inr ()"
    by (simp add: loginByCookie_def Let_def demo_login_deps_def demo_response_def
        demo_page_def then_run_call_Inr outcome_def)
  from loginByCookie_installs_exactly_the_session_cookie [OF h]
  show ?thesis
    by (simp add: demo_login_deps_def)
qed

text \<open>
  C10, as stated, fails when the \<^verbatim>\<open>Set-Cookie\<close> header is present with an empty value:
  the header holds no entry under the session cookie name, yet \<^verbatim>\<open>!cookieValue\<close> is true
  and the helper throws without calling \<^verbatim>\<open>addCookies\<close>.
\<close>

theorem loginByCookie_empty_set_cookie_counterexample:
  "createUserSession (demo_login_deps (Some ''''))
     \<lparr>redirectTo = ''/'', remember = False,
      request = new_Request ''http://localhost:3000/'', userId = ''did:ethr:0xabc''\<rparr>
     = Inr (demo_response (Some ''''))
   \<and> headers_get (demo_response (Some '''')) ''Set-Cookie'' = Some ''''
   \<and> parse (demo_login_deps (Some '''')) ''''
        (USER_AUTHENTICATION_SESSION_NAME (demo_login_deps (Some ''''))) = None
   \<and> loginByCookie (demo_login_deps (Some '''')) (Some ''did:ethr:0xabc'') demo_page =
       ([CreateUserSession
           \<lparr>redirectTo = ''/'', remember = False,
            request = new_Request ''http://localhost:3000/'', userId = ''did:ethr:0xabc''\<rparr>],
        Inl (Error ''Cookie missing from createUserSession response''))"
  by (simp add: loginByCookie_def Let_def demo_login_deps_def demo_response_def demo_parse_def
      then_run_call_Inr throw_run_def)

text \<open>
  C10, amended. The fatal check covers the absent and the empty \<^verbatim>\<open>Set-Cookie\<close> header.
  When the header is present and not empty but the parsed header has no entry under the
  session cookie name, the helper does not throw its own error: it calls \<^verbatim>\<open>addCookies\<close>
  with a cookie whose value is \<^verbatim>\<open>undefined\<close>, and ends as that call ends.
\<close>

theorem loginByCookie_installs_undefined_value:
  assumes "createUserSession d
             \<lparr>redirectTo = ''/'', remember = False,
              request = new_Request ''http://localhost:3000/'',
              userId = (case id_arg of None \<Rightarrow> generateRandomDid d | Some i \<Rightarrow> i)\<rparr> = Inr resp"
    and "headers_get resp ''Set-Cookie'' = Some cv"
    and "cv \<noteq> []"
    and "parse d cv (USER_AUTHENTICATION_SESSION_NAME d) = None"
  shows "loginByCookie d id_arg page =
           ([CreateUserSession
               \<lparr>redirectTo = ''/'', remember = False,
                request = new_Request ''http://localhost:3000/'',
                userId = (case id_arg of None \<Rightarrow> generateRandomDid d | Some i \<Rightarrow> i)\<rparr>,
             AddCookies
               [\<lparr>name = USER_AUTHENTICATION_SESSION_NAME d, cookie_value = None,
                 domain = ''localhost'', path = ''/''\<rparr>]],
            addCookies page
              [\<lparr>name = USER_AUTHENTICATION_SESSION_NAME d, cookie_value = None,
                domain = ''localhost'', path = ''/''\<rparr>])"
  using assms
  by (simp add: loginByCookie_def Let_def then_run_call_Inr)

theorem loginByCookie_installs_undefined_value_witness:
  "loginByCookie (demo_login_deps (Some ''other=1; Path=/'')) (Some ''did:ethr:0xabc'') demo_page =
     ([CreateUserSession
         \<lparr>redirectTo = ''/'', remember = False,
          request = new_Request ''http://localhost:3000/'', userId = ''did:ethr:0xabc''\<rparr>,
       AddCookies
         [\<lparr>name = ''__session'', cookie_value = None,
           domain = ''localhost'', path = ''/''\<rparr>]],
      Inr ())"
proof -
  let ?d = "demo_login_deps (Some ''other=1; Path=/'')"
  have h1: "createUserSession ?d
             \<lparr>redirectTo = ''/'', remember = False,
              request = new_Request ''http://localhost:3000/'',
              userId = (case Some ''did:ethr:0xabc'' of
                          None \<Rightarrow> generateRandomDid ?d | Some i \<Rightarrow> i)\<rparr>
            = Inr (demo_response (Some ''other=1; Path=/''))"
    by (simp add: demo_login_deps_def)
  have h2: "headers_get (demo_response (Some ''other=1; Path=/'')) ''Set-Cookie''
              = Some ''other=1; Path=/''"
    by (simp add: demo_response_def)
  have h3: "''other=1; Path=/'' \<noteq> []"
    by simp
  have h4: "parse ?d ''other=1; Path=/'' (USER_AUTHENTICATION_SESSION_NAME ?d) = None"
    by (simp add: demo_login_deps_def demo_parse_def)
  from loginByCookie_installs_undefined_value [OF h1 h2 h3 h4, of demo_page]
  show ?thesis
    by (simp add: demo_login_deps_def demo_page_def)
qed

section \<open>Properties of the root loader\<close>

lemma rootLoader_production_unfold:
  assumes "or_default (process_env d ''NODE_ENV'') ''production'' = ''production''"
  shows "rootLoader d req =
           then_run (call (EnforceHttps req) (enforceHttps d req))
             (\<lambda>_. then_run (call (GetLocale req) (getLocale d req)) (\<lambda>loc.
                   then_run (call (GetFixedT req) (getFixedT d req)) (\<lambda>t.
                   then_run (call (GetToast req) (getToast d req)) (\<lambda>toasted.
                   done_run
                     \<lparr>json_data =
                        \<lparr>ENV = \<lparr>ENVIRONMENT = process_env d ''NODE_ENV'',
                                 SENTRY_DSN = process_env d ''SENTRY_DSN''\<rparr>,
                         loader_locale = loc, title = t ''app-name'',
                         toast = got_toast toasted\<rparr>,
                      json_headers = combineHeaders d [got_headers toasted]\<rparr>))))"
  using assms by (simp add: rootLoader_def Let_def)

lemma rootLoader_production_calls:
  assumes "or_default (process_env d ''NODE_ENV'') ''production'' = ''production''"
  shows "\<exists>later. calls (rootLoader d req) = EnforceHttps req # later"
  by (simp add: rootLoader_production_unfold [OF assms] calls_then_run_call)

lemma rootLoader_production_throw:
  assumes "or_default (process_env d ''NODE_ENV'') ''production'' = ''production''"
    and "enforceHttps d req = Inl x"
  shows "rootLoader d req = ([EnforceHttps req], Inl x)"
  by (simp add: rootLoader_production_unfold [OF assms(1)] assms(2) then_run_call_Inl)

text \<open>
  Outside production the check is skipped: with \<^verbatim>\<open>NODE_ENV\<close> set to anything other than
  \<^verbatim>\<open>production\<close> (and not empty), the loader starts with \<^verbatim>\<open>i18next.getLocale\<close>.
\<close>

lemma rootLoader_skips_https_check_elsewhere:
  assumes "process_env d ''NODE_ENV'' = Some e" and "e \<noteq> []" and "e \<noteq> ''production''"
  shows "\<exists>later. calls (rootLoader d req) = GetLocale req # later"
  using assms
  by (simp add: rootLoader_def Let_def or_default_def then_run_done calls_then_run_call)

text \<open>
  C3, as stated, fails on the exported \<^verbatim>\<open>loader\<close>: the request goes to \<^verbatim>\<open>rootAuthLoader\<close>
  first. With a \<^verbatim>\<open>rootAuthLoader\<close> that authenticates the request and then calls the
  handler, a plaintext request in production is authenticated before \<^verbatim>\<open>enforceHttps\<close> is
  reached and throws its redirect.
\<close>

theorem loader_authenticates_before_https_counterexample:
  "process_env demo_production_deps ''NODE_ENV'' = Some ''production''
   \<and> url demo_request = ''http://example.com/''
   \<and> loader demo_rootAuthLoader demo_production_deps demo_request =
       ([AuthenticateRequest demo_request, Handler (EnforceHttps demo_request)],
        Inl ''https://example.com/'')"
  by (simp add: loader_def demo_rootAuthLoader_def rootLoader_def Let_def or_default_def
      demo_production_deps_def demo_root_deps_def demo_enforceHttps_def demo_request_def
      then_run_call_Inl)

text \<open>
  C3, amended. Of the calls \<^verbatim>\<open>rootLoader\<close> itself makes, with \<^verbatim>\<open>NODE_ENV\<close> set to
  \<^verbatim>\<open>production\<close>, the first that is handed the request is \<^verbatim>\<open>enforceHttps\<close>; and when
  \<^verbatim>\<open>enforceHttps\<close> throws (its redirect), \<^verbatim>\<open>rootLoader\<close> ends with that throw having called
  nothing else: no locale, translation or toast logic runs on that request.
\<close>

theorem rootLoader_enforces_https_first_in_production:
  assumes "process_env d ''NODE_ENV'' = Some ''production''"
  shows "(\<exists>later. calls (rootLoader d req) = EnforceHttps req # later)
         \<and> (\<forall>x. enforceHttps d req = Inl x \<longrightarrow> rootLoader d req = ([EnforceHttps req], Inl x))"
proof -
  from assms have prod: "or_default (process_env d ''NODE_ENV'') ''production'' = ''production''"
    by (simp add: or_default_def)
  show ?thesis
    using rootLoader_production_calls [OF prod] rootLoader_production_throw [OF prod]
    by blast
qed

theorem rootLoader_enforces_https_first_in_production_witness:
  "url demo_request = ''http://example.com/''
   \<and> rootLoader demo_production_deps demo_request
     = ([EnforceHttps demo_request], Inl ''https://example.com/'')"
proof -
  have h: "process_env demo_production_deps ''NODE_ENV'' = Some ''production''"
    by (simp add: demo_production_deps_def demo_root_deps_def)
  have t: "enforceHttps demo_production_deps demo_request = Inl ''https://example.com/''"
    by (simp add: demo_production_deps_def demo_enforceHttps_def demo_request_def)
  have u: "url demo_request = ''http://example.com/''"
    by (simp add: demo_request_def)
  from rootLoader_enforces_https_first_in_production [OF h, of demo_request] t u
  show ?thesis
    by blast
qed

text \<open>
  C9. With \<^verbatim>\<open>NODE_ENV\<close> unset, \<^verbatim>\<open>NODE_ENV || 'production'\<close> is \<^verbatim>\<open>production\<close>: the loader
  calls \<^verbatim>\<open>enforceHttps\<close> first, and a throw of \<^verbatim>\<open>enforceHttps\<close> is the loader's outcome.
\<close>

theorem rootLoader_unset_NODE_ENV_enforces_https:
  assumes "process_env d ''NODE_ENV'' = None"
  shows "or_default (process_env d ''NODE_ENV'') ''production'' = ''production''
         \<and> (\<exists>later. calls (rootLoader d req) = EnforceHttps req # later)
         \<and> (\<forall>x. enforceHttps d req = Inl x \<longrightarrow> outcome (rootLoader d req) = Inl x)"
proof -
  from assms have prod: "or_default (process_env d ''NODE_ENV'') ''production'' = ''production''"
    by (simp add: or_default_def)
  have "\<forall>x. enforceHttps d req = Inl x \<longrightarrow> outcome (rootLoader d req) = Inl x"
    using rootLoader_production_throw [OF prod] by (simp add: outcome_def)
  with prod rootLoader_production_calls [OF prod] show ?thesis
    by blast
qed

theorem rootLoader_unset_NODE_ENV_enforces_https_witness:
  "calls (rootLoader (demo_root_deps None (Inr ())) demo_request) =
     [EnforceHttps demo_request, GetLocale demo_request, GetFixedT demo_request,
      GetToast demo_request]
   \<and> outcome (rootLoader (demo_root_deps None (Inl ''https://example.com/'')) demo_request)
       = Inl ''https://example.com/''"
proof -
  let ?d = "demo_root_deps None (Inr ())"
  let ?e = "demo_root_deps None (Inl ''https://example.com/'')"
  have hd: "process_env ?d ''NODE_ENV'' = None"
    by (simp add: demo_root_deps_def)
  have he: "process_env ?e ''NODE_ENV'' = None"
    by (simp add: demo_root_deps_def)
  have t: "enforceHttps ?e demo_request = Inl ''https://example.com/''"
    by (simp add: demo_root_deps_def)
  have run: "calls (rootLoader ?d demo_request) =
     [EnforceHttps demo_request, GetLocale demo_request, GetFixedT demo_request,
      GetToast demo_request]"
    using rootLoader_unset_NODE_ENV_enforces_https [OF hd, of demo_request]
    by (simp add: rootLoader_def Let_def demo_root_deps_def then_run_call_Inr
        done_run_def calls_def)
  from rootLoader_unset_NODE_ENV_enforces_https [OF he, of demo_request] t run
  show ?thesis
    by blast
qed

section \<open>Properties of session resolution\<close>

text \<open>
  C8. When the request carries no cookie under the session cookie name,
  \<open>resolveSession\<close> returns the unauthenticated outcome \<open>None\<close>, asks for no cookie to be
  cleared, and does not fail.
\<close>

theorem resolveSession_without_cookie:
  assumes "readCookie s requestContext (SESSION_COOKIE_NAME s) = None"
  shows "resolveSession s requestContext = Inr \<lparr>identity = None, clearCookie = False\<rparr>"
  using assms by (simp add: resolveSession_def)

theorem resolveSession_without_cookie_witness:
  "resolveSession demo_session_deps demo_request = Inr \<lparr>identity = None, clearCookie = False\<rparr>"
proof -
  have h: "readCookie demo_session_deps demo_request (SESSION_COOKIE_NAME demo_session_deps)
             = None"
    by (simp add: demo_session_deps_def demo_request_def)
  from resolveSession_without_cookie [OF h] show ?thesis .
qed

end
